theory Spec2Isabelle
  imports Complex_Main
begin

section \<open>Strings\<close>

text \<open>
  Python strings are modelled as \<^typ>\<open>string\<close> (lists of 8-bit characters), which is
  exact for ASCII text. \<open>startswith\<close>, \<open>endswith\<close>, the \<open>in\<close> substring test and
  \<open>lower\<close> are the \<open>str\<close> methods the sources use.
\<close>

definition startswith :: "string \<Rightarrow> string \<Rightarrow> bool" where
  "startswith v p = (take (length p) v = p)"

definition endswith :: "string \<Rightarrow> string \<Rightarrow> bool" where
  "endswith v s = (length s \<le> length v \<and> drop (length v - length s) v = s)"

fun str_contains :: "string \<Rightarrow> string \<Rightarrow> bool" where
  "str_contains sub [] = (sub = [])"
| "str_contains sub (c # cs) = (startswith (c # cs) sub \<or> str_contains sub cs)"

definition lower_char :: "char \<Rightarrow> char" where
  "lower_char c =
     (case map_of (zip ''ABCDEFGHIJKLMNOPQRSTUVWXYZ'' ''abcdefghijklmnopqrstuvwxyz'') c of
        Some d \<Rightarrow> d
      | None \<Rightarrow> c)"

definition lower :: "string \<Rightarrow> string" where
  "lower s = map lower_char s"

section \<open>Configuration (config.py)\<close>

datatype config_error = ValueError string

text \<open>\<open>KanboardConfig.validate_url\<close>, the pydantic validator of the \<open>url\<close> field.\<close>

definition validate_url :: "string \<Rightarrow> config_error + string" where
  "validate_url v =
     (if v = [] then Inl (ValueError ''Kanboard URL is required'')
      else if \<not> (startswith v ''http://'' \<or> startswith v ''https://'')
        then Inl (ValueError ''URL must start with http:// or https://'')
      else if \<not> endswith v ''/jsonrpc.php''
        then (if endswith v ''/'' then Inr (v @ ''jsonrpc.php'')
              else Inr (v @ ''/jsonrpc.php''))
      else Inr v)"

fun digit_chars :: "nat \<Rightarrow> string" where
  "digit_chars n =
     (if n < 10 then [''0123456789'' ! n]
      else digit_chars (n div 10) @ [''0123456789'' ! (n mod 10)])"

declare digit_chars.simps [simp del]

text \<open>How an f-string renders a non-negative \<open>int\<close>.\<close>

definition format_int :: "nat \<Rightarrow> string" where
  "format_int n = digit_chars n"

section \<open>Values and exceptions\<close>

text \<open>
  What the transport returns is the parsed JSON result of the remote call. The client
  looks at it twice only: \<open>result is None\<close> and \<open>result.get('name', 'Unknown')\<close>.
\<close>

datatype pyval =
    PyNone
  | PyBool bool
  | PyInt int
  | PyStr string
  | PyList "pyval list"
  | PyDict "(string \<times> pyval) list"

text \<open>
  The exceptions in play. \<open>ClientError\<close> is \<open>kanboard.ClientError\<close>, the transport's own
  failure, with its message and its \<open>code\<close> attribute when it has one. The four
  \<open>Kanboard...\<close> classes are those of client.py; \<open>AttributeError\<close> and \<open>OtherException\<close>
  stand for every other \<open>Exception\<close>. Each carries \<open>str(e)\<close>.
\<close>

datatype exn =
    ClientError string "int option"
  | AttributeError string
  | OtherException string
  | KanboardClientError string
  | KanboardConnectionError string
  | KanboardAuthenticationError string
  | KanboardAPIError string

fun str :: "exn \<Rightarrow> string" where
  "str (ClientError s c) = s"
| "str (AttributeError s) = s"
| "str (OtherException s) = s"
| "str (KanboardClientError s) = s"
| "str (KanboardConnectionError s) = s"
| "str (KanboardAuthenticationError s) = s"
| "str (KanboardAPIError s) = s"

text \<open>\<open>isinstance(e, kanboard.ClientError)\<close>, the test of an \<open>except kanboard.ClientError\<close>.\<close>

fun is_ClientError :: "exn \<Rightarrow> bool" where
  "is_ClientError (ClientError s c) = True"
| "is_ClientError e = False"

text \<open>\<open>isinstance(e, KanboardClientError)\<close>: the base class and its three subclasses.\<close>

fun is_KanboardClientError :: "exn \<Rightarrow> bool" where
  "is_KanboardClientError (KanboardClientError s) = True"
| "is_KanboardClientError (KanboardConnectionError s) = True"
| "is_KanboardClientError (KanboardAuthenticationError s) = True"
| "is_KanboardClientError (KanboardAPIError s) = True"
| "is_KanboardClientError e = False"

definition quoted :: "string \<Rightarrow> string" where
  "quoted s = [CHR 0x27] @ s @ [CHR 0x27]"

text \<open>The message of the \<open>AttributeError\<close> of a failed attribute lookup.\<close>

definition no_attribute :: "string \<Rightarrow> string \<Rightarrow> string" where
  "no_attribute ty name = quoted ty @ '' object has no attribute '' @ quoted name"

fun type_name :: "pyval \<Rightarrow> string" where
  "type_name PyNone = ''NoneType''"
| "type_name (PyBool b) = ''bool''"
| "type_name (PyInt i) = ''int''"
| "type_name (PyStr s) = ''str''"
| "type_name (PyList xs) = ''list''"
| "type_name (PyDict d) = ''dict''"

text \<open>\<open>v.get(key, default)\<close>: only a dict has the method.\<close>

fun py_get :: "pyval \<Rightarrow> string \<Rightarrow> pyval \<Rightarrow> exn + pyval" where
  "py_get (PyDict d) key dflt = Inr (case map_of d key of Some x \<Rightarrow> x | None \<Rightarrow> dflt)"
| "py_get v key dflt = Inl (AttributeError (no_attribute (type_name v) ''get''))"

section \<open>Configuration records (config.py)\<close>

text \<open>
  \<open>retry_delay\<close> is a Python \<open>float\<close>: a number, an infinity or NaN. The model
  only compares it with zero and hands it to \<open>time.sleep\<close>, so a finite float is taken
  as the real number it denotes.
\<close>

datatype pyfloat = Finite real | PosInf | NegInf | NaN

text \<open>\<open>v < 0\<close> on a float: false for NaN.\<close>

fun float_negative :: "pyfloat \<Rightarrow> bool" where
  "float_negative (Finite r) = (r < 0)"
| "float_negative NegInf = True"
| "float_negative PosInf = False"
| "float_negative NaN = False"

text \<open>
  \<open>max_retries\<close> is a \<^typ>\<open>nat\<close>: \<open>validate_max_retries\<close> rejects a negative value, so
  \<open>range(max_retries + 1)\<close> is never empty.
\<close>

record KanboardConfig =
  url :: string
  username :: string
  password :: string
  auth_header :: "string option"
  verify_ssl :: bool
  timeout :: int

record MCPServerConfig =
  server_name :: string
  server_version :: string
  debug :: bool
  max_retries :: nat
  retry_delay :: pyfloat

record Config =
  kanboard :: KanboardConfig
  server :: MCPServerConfig

text \<open>\<open>MCPServerConfig.validate_max_retries\<close> and \<open>validate_retry_delay\<close>.\<close>

definition validate_max_retries :: "int \<Rightarrow> config_error + int" where
  "validate_max_retries v =
     (if v < 0 then Inl (ValueError ''Max retries must be non-negative'') else Inr v)"

definition validate_retry_delay :: "pyfloat \<Rightarrow> config_error + pyfloat" where
  "validate_retry_delay v =
     (if float_negative v then Inl (ValueError ''Retry delay must be non-negative'') else Inr v)"

section \<open>The transport\<close>

text \<open>
  The \<open>kanboard\<close> library is outside the repository. It is a parameter of the model: a
  constructor (\<open>kanboard.Client(...)\<close>), the attribute lookup on a handle, and the call of
  a looked-up method, over an outside world \<open>'w\<close> that each call may change and depend on.
  The other call that leaves the repository is \<open>time.sleep\<close>, which raises for some
  delays; \<open>time_sleep\<close> gives the exception it raises for a delay, if it raises one.
\<close>

type_synonym handle = nat

record client_args =
  arg_url :: string
  arg_username :: string
  arg_password :: string
  arg_auth_header :: string
  arg_insecure :: bool

record 'w transport =
  construct :: "client_args \<Rightarrow> 'w \<Rightarrow> (exn + handle) \<times> 'w"
  exposes :: "handle \<Rightarrow> string \<Rightarrow> bool"
  invoke :: "handle \<Rightarrow> string \<Rightarrow> pyval list \<Rightarrow> (string \<times> pyval) list \<Rightarrow> 'w
               \<Rightarrow> (exn + pyval) \<times> 'w"
  time_sleep :: "pyfloat \<Rightarrow> exn option"

text \<open>
  The trace lists, in order, what the client does to the outside: constructing a
  transport, the identity check of \<open>connect\<close>, a failed attribute lookup, a method
  invocation of the retry loop with its outcome, a sleep that was taken, and a disconnect.
\<close>

datatype event =
    Constructed
  | IdentityCheck
  | LookupFailed string
  | Invoked string "exn + pyval"
  | Slept pyfloat
  | Disconnected

text \<open>\<open>KanboardClient\<close>: the fields \<open>_client\<close> and \<open>_connected\<close>, with the world and the trace.\<close>

record 'w state =
  client :: "handle option"
  connected :: bool
  world :: 'w
  trace :: "event list"

text \<open>\<open>KanboardClient.__init__\<close>.\<close>

definition init :: "'w \<Rightarrow> 'w state" where
  "init w = \<lparr>client = None, connected = False, world = w, trace = []\<rparr>"

section \<open>Session management (client.py)\<close>

definition create_client :: "'w transport \<Rightarrow> Config \<Rightarrow> 'w state \<Rightarrow> (exn + handle) \<times> 'w state" where
  "create_client T cfg st =
     (case construct T
             \<lparr>arg_url = url (kanboard cfg), arg_username = username (kanboard cfg),
              arg_password = password (kanboard cfg),
              arg_auth_header =
                (case auth_header (kanboard cfg) of
                   None \<Rightarrow> ''Authorization''
                 | Some h \<Rightarrow> if h = [] then ''Authorization'' else h),
              arg_insecure = (\<not> verify_ssl (kanboard cfg))\<rparr>
             (world st) of
        (Inr h, w) \<Rightarrow> (Inr h, st\<lparr>world := w, trace := trace st @ [Constructed]\<rparr>)
      | (Inl e, w) \<Rightarrow>
          (Inl (KanboardConnectionError (''Failed to create Kanboard client: '' @ str e)),
           st\<lparr>world := w, trace := trace st @ [Constructed]\<rparr>))"

text \<open>The two \<open>except\<close> clauses of \<open>connect\<close>, in their order.\<close>

definition connect_failed :: "exn \<Rightarrow> exn" where
  "connect_failed e =
     (if is_ClientError e then KanboardAuthenticationError (''Authentication failed: '' @ str e)
      else KanboardConnectionError (''Connection failed: '' @ str e))"

text \<open>\<open>self._client.get_me()\<close>: the lookup, then the call.\<close>

definition get_me :: "'w transport \<Rightarrow> handle \<Rightarrow> 'w state \<Rightarrow> (exn + pyval) \<times> 'w state" where
  "get_me T h st =
     (if \<not> exposes T h ''get_me''
      then (Inl (AttributeError (no_attribute ''Client'' ''get_me'')), st)
      else case invoke T h ''get_me'' [] [] (world st) of
             (r, w) \<Rightarrow> (r, st\<lparr>world := w, trace := trace st @ [IdentityCheck]\<rparr>))"

definition connect :: "'w transport \<Rightarrow> Config \<Rightarrow> 'w state \<Rightarrow> (exn + unit) \<times> 'w state" where
  "connect T cfg st =
     (if connected st \<and> client st \<noteq> None then (Inr (), st)
      else
        case create_client T cfg st of
          (Inl e, st1) \<Rightarrow> (Inl (connect_failed e), st1)
        | (Inr h, st1) \<Rightarrow>
            (case get_me T h (st1\<lparr>client := Some h\<rparr>) of
               (Inl e, st2) \<Rightarrow> (Inl (connect_failed e), st2)
             | (Inr result, st2) \<Rightarrow>
                 if result = PyNone
                 then (Inl (connect_failed
                         (KanboardAuthenticationError
                            ''Authentication failed - invalid credentials'')), st2)
                 else
                   (case py_get result ''name'' (PyStr ''Unknown'') of
                      Inl e \<Rightarrow> (Inl (connect_failed e), st2\<lparr>connected := True\<rparr>)
                    | Inr name \<Rightarrow> (Inr (), st2\<lparr>connected := True\<rparr>))))"

definition disconnect :: "'w state \<Rightarrow> (exn + unit) \<times> 'w state" where
  "disconnect st =
     (Inr (), st\<lparr>client := None, connected := False, trace := trace st @ [Disconnected]\<rparr>)"

definition is_connected :: "'w state \<Rightarrow> bool" where
  "is_connected st = (connected st \<and> client st \<noteq> None)"

section \<open>The retry loop (client.py)\<close>

text \<open>Lines 100 to 104: the body of the \<open>try\<close>.\<close>

definition attempt ::
  "'w transport \<Rightarrow> string \<Rightarrow> pyval list \<Rightarrow> (string \<times> pyval) list \<Rightarrow> 'w state
     \<Rightarrow> (exn + pyval) \<times> 'w state" where
  "attempt T m a kw st =
     (case client st of
        None \<Rightarrow> (Inl (KanboardConnectionError ''Client not connected''), st)
      | Some h \<Rightarrow>
          if \<not> exposes T h m
          then (Inl (AttributeError (no_attribute ''Client'' m)),
                st\<lparr>trace := trace st @ [LookupFailed m]\<rparr>)
          else case invoke T h m a kw (world st) of
                 (r, w) \<Rightarrow> (r, st\<lparr>world := w, trace := trace st @ [Invoked m r]\<rparr>))"

text \<open>Line 117: the message names an authentication failure.\<close>

definition auth_failure :: "exn \<Rightarrow> bool" where
  "auth_failure e =
     (str_contains ''authentication'' (lower (str e)) \<or>
      str_contains ''unauthorized'' (lower (str e)))"

text \<open>Line 121: \<open>hasattr(e, 'code') and 400 <= e.code < 500\<close>.\<close>

fun client_4xx :: "exn \<Rightarrow> bool" where
  "client_4xx (ClientError s (Some c)) = (400 \<le> c \<and> c < 500)"
| "client_4xx e = False"

text \<open>Lines 129 to 133: disconnect, connect, and whatever they raise is dropped.\<close>

definition reconnect :: "'w transport \<Rightarrow> Config \<Rightarrow> 'w state \<Rightarrow> 'w state" where
  "reconnect T cfg st = snd (connect T cfg (snd (disconnect st)))"

text \<open>
  Lines 112 to 137: the three \<open>except\<close> clauses, tried in their order. The result is the
  exception the clause raises, if it raises one, and the state it leaves. The second
  clause names the same class as the first.
\<close>

definition on_failure ::
  "'w transport \<Rightarrow> Config \<Rightarrow> exn \<Rightarrow> 'w state \<Rightarrow> exn option \<times> 'w state" where
  "on_failure T cfg e st =
     (if is_ClientError e then
        (if auth_failure e
         then (Some (KanboardAuthenticationError (''Authentication failed: '' @ str e)), st)
         else if client_4xx e
         then (Some (KanboardAPIError (''API error: '' @ str e)), st)
         else (None, st))
      else if is_ClientError e then (None, reconnect T cfg st)
      else (None, st))"

text \<open>
  Lines 140 and 141: \<open>time.sleep(self.config.server.retry_delay)\<close> when the attempt was
  not the last. The statement stands after the \<open>try\<close>, so what \<open>time.sleep\<close> raises
  leaves the loop and the function.
\<close>

definition sleep :: "'w transport \<Rightarrow> Config \<Rightarrow> 'w state \<Rightarrow> exn option \<times> 'w state" where
  "sleep T cfg st =
     (case time_sleep T (retry_delay (server cfg)) of
        Some e \<Rightarrow> (Some e, st)
      | None \<Rightarrow> (None, st\<lparr>trace := trace st @ [Slept (retry_delay (server cfg))]\<rparr>))"

definition wait_before_retry ::
  "'w transport \<Rightarrow> Config \<Rightarrow> nat \<Rightarrow> 'w state \<Rightarrow> exn option \<times> 'w state" where
  "wait_before_retry T cfg i st =
     (if i < max_retries (server cfg) then sleep T cfg st else (None, st))"

text \<open>Lines 144 to 152: the error raised when the loop runs out.\<close>

definition exhausted :: "Config \<Rightarrow> string \<Rightarrow> exn option \<Rightarrow> exn" where
  "exhausted cfg m last_exception =
     (case last_exception of
        Some e \<Rightarrow>
          if is_ClientError e
          then KanboardAPIError
                 (''API call '' @ m @ '' failed after '' @
                  format_int (max_retries (server cfg) + 1) @ '' attempts: '' @ str e)
          else if is_ClientError e
          then KanboardConnectionError
                 (''Connection failed for '' @ m @ '' after '' @
                  format_int (max_retries (server cfg) + 1) @ '' attempts: '' @ str e)
          else KanboardClientError
                 (''Unexpected error in '' @ m @ '' after '' @
                  format_int (max_retries (server cfg) + 1) @ '' attempts: '' @ str e)
      | None \<Rightarrow>
          KanboardClientError
            (''Method '' @ m @ '' failed after '' @
             format_int (max_retries (server cfg) + 1) @ '' attempts''))"

text \<open>
  The \<open>for\<close> loop over \<open>range(max_retries + 1)\<close>, as a recursion over the attempt
  indices still to run, with \<open>last_exception\<close> as an argument.
\<close>

fun retry_loop ::
  "'w transport \<Rightarrow> Config \<Rightarrow> string \<Rightarrow> pyval list \<Rightarrow> (string \<times> pyval) list \<Rightarrow> nat list
     \<Rightarrow> exn option \<Rightarrow> 'w state \<Rightarrow> (exn + pyval) \<times> 'w state" where
  "retry_loop T cfg m a kw [] last_exception st = (Inl (exhausted cfg m last_exception), st)"
| "retry_loop T cfg m a kw (i # is) last_exception st =
     (case attempt T m a kw st of
        (Inr v, st1) \<Rightarrow> (Inr v, st1)
      | (Inl e, st1) \<Rightarrow>
          (case on_failure T cfg e st1 of
             (Some e', st2) \<Rightarrow> (Inl e', st2)
           | (None, st2) \<Rightarrow>
               (case wait_before_retry T cfg i st2 of
                  (Some e2, st3) \<Rightarrow> (Inl e2, st3)
                | (None, st3) \<Rightarrow> retry_loop T cfg m a kw is (Some e) st3)))"

text \<open>Lines 93 and 94: \<open>if not self.is_connected(): self.connect()\<close>.\<close>

definition ensure_connected :: "'w transport \<Rightarrow> Config \<Rightarrow> 'w state \<Rightarrow> (exn + unit) \<times> 'w state" where
  "ensure_connected T cfg st = (if \<not> is_connected st then connect T cfg st else (Inr (), st))"

definition execute_with_retry ::
  "'w transport \<Rightarrow> Config \<Rightarrow> string \<Rightarrow> pyval list \<Rightarrow> (string \<times> pyval) list \<Rightarrow> 'w state
     \<Rightarrow> (exn + pyval) \<times> 'w state" where
  "execute_with_retry T cfg m a kw st =
     (case ensure_connected T cfg st of
        (Inl e, st1) \<Rightarrow> (Inl e, st1)
      | (Inr u, st1) \<Rightarrow>
          retry_loop T cfg m a kw [0 ..< max_retries (server cfg) + 1] None st1)"

definition call_api ::
  "'w transport \<Rightarrow> Config \<Rightarrow> string \<Rightarrow> pyval list \<Rightarrow> (string \<times> pyval) list \<Rightarrow> 'w state
     \<Rightarrow> (exn + pyval) \<times> 'w state" where
  "call_api T cfg m a kw st =
     (case execute_with_retry T cfg m a kw st of
        (Inr v, st1) \<Rightarrow> (Inr v, st1)
      | (Inl e, st1) \<Rightarrow>
          if is_KanboardClientError e then (Inl e, st1)
          else (Inl (KanboardClientError (''Unexpected error: '' @ str e)), st1))"

text \<open>\<open>test_connection\<close>: the returned dict, as a list of its items.\<close>

definition test_connection ::
  "'w transport \<Rightarrow> Config \<Rightarrow> 'w state \<Rightarrow> (exn + (string \<times> pyval) list) \<times> 'w state" where
  "test_connection T cfg st =
     (case call_api T cfg ''get_me'' [] [] st of
        (Inr result, st1) \<Rightarrow>
          (Inr [(''connected'', PyBool True), (''user'', result),
                (''server_url'', PyStr (url (kanboard cfg))),
                (''username'', PyStr (username (kanboard cfg)))], st1)
      | (Inl e, st1) \<Rightarrow>
          (Inr [(''connected'', PyBool False), (''error'', PyStr (str e)),
                (''server_url'', PyStr (url (kanboard cfg))),
                (''username'', PyStr (username (kanboard cfg)))], st1))"

section \<open>Reading the trace\<close>

text \<open>The number of method invocations the retry loop has made.\<close>

fun is_invocation :: "event \<Rightarrow> bool" where
  "is_invocation (Invoked m r) = True"
| "is_invocation ev = False"

definition invocations :: "event list \<Rightarrow> nat" where
  "invocations evs = length (filter is_invocation evs)"

text \<open>
  A failure that the first \<open>except\<close> clause re-raises at once: a \<open>kanboard.ClientError\<close>
  whose message names an authentication failure or whose code is in the 4xx range.
\<close>

definition terminal :: "exn \<Rightarrow> bool" where
  "terminal e = (is_ClientError e \<and> (auth_failure e \<or> client_4xx e))"

text \<open>The exception an attempt ended with, read off the event the attempt left.\<close>

fun failure_of :: "event \<Rightarrow> exn option" where
  "failure_of (Invoked m (Inl e)) = Some e"
| "failure_of (LookupFailed m) = Some (AttributeError (no_attribute ''Client'' m))"
| "failure_of ev = None"

definition failures :: "event list \<Rightarrow> exn list" where
  "failures evs = List.map_filter failure_of evs"

text \<open>An event that is not an attempt that succeeded or failed terminally.\<close>

fun attempt_retried :: "event \<Rightarrow> bool" where
  "attempt_retried (Invoked m (Inl e)) = (\<not> terminal e)"
| "attempt_retried (Invoked m (Inr v)) = False"
| "attempt_retried ev = True"

section \<open>A scripted transport\<close>

text \<open>
  A transport for concrete runs: the world is the list of outcomes of the constructions
  still to come and the list of outcomes of the method calls still to come; the handle
  exposes the listed method names.
\<close>

text \<open>
  \<open>time.sleep\<close> as CPython has it where the clock counts nanoseconds in 64 bits:
  \<open>ValueError\<close> for NaN and for a negative delay, \<open>OverflowError\<close> for a delay of
  \<open>2 ** 63\<close> nanoseconds or more.
\<close>

fun cpython_sleep :: "pyfloat \<Rightarrow> exn option" where
  "cpython_sleep NaN = Some (OtherException ''Invalid value NaN (not a number)'')"
| "cpython_sleep PosInf = Some (OtherException ''timestamp too large to convert to C _PyTime_t'')"
| "cpython_sleep NegInf = Some (OtherException ''timestamp too large to convert to C _PyTime_t'')"
| "cpython_sleep (Finite r) =
     (if r < 0 then Some (OtherException ''sleep length must be non-negative'')
      else if 9223372036854775808 / 1000000000 \<le> r
      then Some (OtherException ''timestamp too large to convert to C _PyTime_t'')
      else None)"

definition scripted :: "string list \<Rightarrow> ((exn + handle) list \<times> (exn + pyval) list) transport" where
  "scripted names =
     \<lparr>construct = (\<lambda>args (cs, rs).
        case cs of [] \<Rightarrow> (Inl (OtherException ''no transport''), ([], rs))
                 | c # cs' \<Rightarrow> (c, (cs', rs))),
      exposes = (\<lambda>h m. m \<in> set names),
      invoke = (\<lambda>h m a kw (cs, rs).
        case rs of [] \<Rightarrow> (Inl (ClientError ''no reply'' None), (cs, []))
                 | r # rs' \<Rightarrow> (r, (cs, rs'))),
      time_sleep = cpython_sleep\<rparr>"

definition example_config :: "nat \<Rightarrow> pyfloat \<Rightarrow> Config" where
  "example_config n d =
     \<lparr>kanboard = \<lparr>url = ''http://h/jsonrpc.php'', username = ''jsonrpc'', password = ''t'',
                  auth_header = None, verify_ssl = True, timeout = 30\<rparr>,
      server = \<lparr>server_name = ''Kanboard MCP Server'', server_version = ''0.1.0'',
                debug = False, max_retries = n, retry_delay = d\<rparr>\<rparr>"

section \<open>Facts about the string helpers\<close>

lemma endswith_append: "endswith (u @ s) s"
  by (simp add: endswith_def)

lemma endswith_iff: "endswith v s \<longleftrightarrow> (\<exists>u. v = u @ s)"
proof
  assume h: "endswith v s"
  then have "v = take (length v - length s) v @ s"
    by (metis append_take_drop_id endswith_def)
  then show "\<exists>u. v = u @ s" ..
next
  assume "\<exists>u. v = u @ s"
  then show "endswith v s" by (auto simp: endswith_append)
qed

lemma endswith_trans: "endswith v s \<Longrightarrow> endswith s t \<Longrightarrow> endswith v t"
  by (auto simp: endswith_iff)

lemma startswith_iff: "startswith v p \<longleftrightarrow> (\<exists>u. v = p @ u)"
proof
  assume "startswith v p"
  then have "v = p @ drop (length p) v"
    by (metis append_take_drop_id startswith_def)
  then show "\<exists>u. v = p @ u" ..
next
  assume "\<exists>u. v = p @ u"
  then show "startswith v p" by (auto simp: startswith_def)
qed

lemma startswith_append: "startswith v p \<Longrightarrow> startswith (v @ w) p"
  by (auto simp: startswith_iff)

lemma slash_suffix_of_rpc: "endswith ''/jsonrpc.php'' ''jsonrpc.php''"
  by (simp add: endswith_def)

lemma rpc_not_slash_terminated: "endswith v ''/jsonrpc.php'' \<Longrightarrow> \<not> endswith v ''/''"
  by (auto simp: endswith_iff)

section \<open>URL normalisation\<close>

text \<open>
  C7 (as amended). A URL with an http:// or https:// scheme that does not end with
  "jsonrpc.php" and has no trailing slash gets exactly "/jsonrpc.php" appended; a URL
  with such a scheme that already ends with "/jsonrpc.php" (the suffix the validator
  tests, slash included) is returned unchanged.
\<close>

theorem validate_url_appends_suffix:
  "(startswith v ''http://'' \<or> startswith v ''https://'') \<longrightarrow>
     (\<not> endswith v ''jsonrpc.php'' \<and> \<not> endswith v ''/''
         \<longrightarrow> validate_url v = Inr (v @ ''/jsonrpc.php'')) \<and>
     (endswith v ''/jsonrpc.php'' \<longrightarrow> validate_url v = Inr v)"
proof (intro impI conjI)
  assume scheme: "startswith v ''http://'' \<or> startswith v ''https://''"
  then have ne: "v \<noteq> []" by (auto simp: startswith_def)
  {
    assume "\<not> endswith v ''jsonrpc.php'' \<and> \<not> endswith v ''/''"
    moreover from this have "\<not> endswith v ''/jsonrpc.php''"
      using endswith_trans [OF _ slash_suffix_of_rpc] by blast
    ultimately show "validate_url v = Inr (v @ ''/jsonrpc.php'')"
      using scheme ne by (simp add: validate_url_def)
  }
  {
    assume "endswith v ''/jsonrpc.php''"
    then show "validate_url v = Inr v"
      using scheme ne by (simp add: validate_url_def)
  }
qed

theorem validate_url_appends_suffix_witness:
  "validate_url ''http://h'' = Inr ''http://h/jsonrpc.php'' \<and>
   validate_url ''https://h/jsonrpc.php'' = Inr ''https://h/jsonrpc.php''"
  using validate_url_appends_suffix [of "''http://h''"]
        validate_url_appends_suffix [of "''https://h/jsonrpc.php''"]
  by (simp add: startswith_def endswith_def)

text \<open>
  The claim as stated names the suffix "jsonrpc.php" without the slash. That fails: this
  URL has a valid scheme and ends with "jsonrpc.php", and the validator changes it.
\<close>

theorem validate_url_bare_suffix_counterexample:
  "startswith ''http://h/xjsonrpc.php'' ''http://'' \<and>
   endswith ''http://h/xjsonrpc.php'' ''jsonrpc.php'' \<and>
   validate_url ''http://h/xjsonrpc.php'' = Inr ''http://h/xjsonrpc.php/jsonrpc.php'' \<and>
   validate_url ''http://h/xjsonrpc.php'' \<noteq> Inr ''http://h/xjsonrpc.php''"
  by (simp add: validate_url_def startswith_def endswith_def)

text \<open>
  C8. A URL with a valid scheme that ends with a slash and does not already end with
  "jsonrpc.php" gets exactly "jsonrpc.php" appended, with no further slash; and the
  validator is idempotent on every input it accepts.
\<close>

theorem validate_url_trailing_slash_idempotent:
  "((startswith v ''http://'' \<or> startswith v ''https://'') \<and> endswith v ''/'' \<and>
      \<not> endswith v ''jsonrpc.php'' \<longrightarrow> validate_url v = Inr (v @ ''jsonrpc.php'')) \<and>
   (validate_url v = Inr u \<longrightarrow> validate_url u = Inr u)"
proof (intro conjI impI)
  assume h: "(startswith v ''http://'' \<or> startswith v ''https://'') \<and> endswith v ''/'' \<and>
      \<not> endswith v ''jsonrpc.php''"
  then have "v \<noteq> []" by (auto simp: startswith_def)
  moreover from h have "\<not> endswith v ''/jsonrpc.php''"
    using rpc_not_slash_terminated by blast
  ultimately show "validate_url v = Inr (v @ ''jsonrpc.php'')"
    using h by (simp add: validate_url_def)
next
  assume acc: "validate_url v = Inr u"
  then have ne: "v \<noteq> []" and scheme: "startswith v ''http://'' \<or> startswith v ''https://''"
    by (auto simp: validate_url_def split: if_splits)
  have u_cases: "u = v \<and> endswith v ''/jsonrpc.php'' \<or> u = v @ ''jsonrpc.php'' \<and> endswith v ''/''
      \<or> u = v @ ''/jsonrpc.php''"
    using acc by (auto simp: validate_url_def split: if_splits)
  have suffix: "endswith u ''/jsonrpc.php''"
    using u_cases
  proof (elim disjE conjE)
    assume "u = v @ ''jsonrpc.php''" and "endswith v ''/''"
    then obtain w where "u = (w @ ''/'') @ ''jsonrpc.php''"
      by (auto simp: endswith_iff)
    then have "u = w @ ''/jsonrpc.php''" by simp
    then show ?thesis by (simp only: endswith_append)
  qed (auto simp: endswith_append)
  have "u \<noteq> []" using suffix by (auto simp: endswith_def)
  moreover have "startswith u ''http://'' \<or> startswith u ''https://''"
    using u_cases scheme by (auto intro: startswith_append)
  ultimately show "validate_url u = Inr u"
    using suffix by (simp add: validate_url_def)
qed

theorem validate_url_trailing_slash_idempotent_witness:
  "validate_url ''http://h/'' = Inr ''http://h/jsonrpc.php'' \<and>
   validate_url ''http://h/jsonrpc.php'' = Inr ''http://h/jsonrpc.php''"
  using validate_url_trailing_slash_idempotent [of "''http://h/''" "''http://h/jsonrpc.php''"]
  by (simp add: startswith_def endswith_def)

section \<open>Facts about the session and the retry loop\<close>

lemma on_failure_eq:
  "on_failure T cfg e st =
     (if is_ClientError e \<and> auth_failure e
        then Some (KanboardAuthenticationError (''Authentication failed: '' @ str e))
      else if is_ClientError e \<and> client_4xx e
        then Some (KanboardAPIError (''API error: '' @ str e))
      else None, st)"
  by (simp add: on_failure_def)

lemma on_failure_None_iff: "fst (on_failure T cfg e st) = None \<longleftrightarrow> \<not> terminal e"
  by (auto simp: on_failure_eq terminal_def)

lemma retry_loop_step:
  "retry_loop T cfg m a kw (i # is) l st =
     (case attempt T m a kw st of
        (Inr v, st1) \<Rightarrow> (Inr v, st1)
      | (Inl e, st1) \<Rightarrow>
          if terminal e
          then (Inl (if auth_failure e
                     then KanboardAuthenticationError (''Authentication failed: '' @ str e)
                     else KanboardAPIError (''API error: '' @ str e)), st1)
          else (case wait_before_retry T cfg i st1 of
                  (Some e2, st3) \<Rightarrow> (Inl e2, st3)
                | (None, st3) \<Rightarrow> retry_loop T cfg m a kw is (Some e) st3))"
  by (auto simp: on_failure_eq terminal_def split: prod.splits sum.splits)

lemma wait_cases:
  assumes "wait_before_retry T cfg i st = (rs, st3)"
  shows "client st3 = client st \<and> connected st3 = connected st \<and> world st3 = world st \<and>
         (trace st3 = trace st \<or> trace st3 = trace st @ [Slept (retry_delay (server cfg))])"
  using assms
  by (auto simp: wait_before_retry_def sleep_def split: if_splits option.splits)

lemma wait_accepted:
  assumes "max_retries (server cfg) = 0 \<or> time_sleep T (retry_delay (server cfg)) = None"
  shows "wait_before_retry T cfg i st =
           (None, if i < max_retries (server cfg)
                  then st\<lparr>trace := trace st @ [Slept (retry_delay (server cfg))]\<rparr> else st)"
  using assms by (auto simp: wait_before_retry_def sleep_def)

lemma attempt_cases:
  assumes "client st = Some h" and "attempt T m a kw st = (ra, st1)"
  shows "client st1 = client st \<and> connected st1 = connected st \<and>
         (trace st1 = trace st @ [Invoked m ra] \<or>
          trace st1 = trace st @ [LookupFailed m] \<and>
            ra = Inl (AttributeError (no_attribute ''Client'' m)))"
  using assms
  by (auto simp: attempt_def split: if_splits prod.splits)

lemma attempt_invocations:
  "invocations (trace (snd (attempt T m a kw st))) \<le> invocations (trace st) + 1"
  by (auto simp: attempt_def invocations_def split: option.splits prod.splits)

lemma retry_loop_invocations:
  "invocations (trace (snd (retry_loop T cfg m a kw is l st))) \<le> invocations (trace st) + length is"
proof (induction "is" arbitrary: l st)
  case Nil
  then show ?case by simp
next
  case (Cons i "is")
  obtain ra st1 where att: "attempt T m a kw st = (ra, st1)" by (cases "attempt T m a kw st")
  have b1: "invocations (trace st1) \<le> invocations (trace st) + 1"
    using attempt_invocations [of T m a kw st] att by simp
  show ?case
  proof (cases ra)
    case (Inr v)
    then show ?thesis using att b1 by simp
  next
    case (Inl e)
    obtain rs st3 where w: "wait_before_retry T cfg i st1 = (rs, st3)"
      by (cases "wait_before_retry T cfg i st1")
    have b3: "invocations (trace st3) = invocations (trace st1)"
      using wait_cases [OF w] by (auto simp: invocations_def)
    show ?thesis
    proof (cases "terminal e")
      case True
      then have "snd (retry_loop T cfg m a kw (i # is) l st) = st1"
        using att Inl by (simp add: retry_loop_step del: retry_loop.simps(2))
      then show ?thesis using b1 by simp
    next
      case False
      show ?thesis
      proof (cases rs)
        case (Some e2)
        then have "snd (retry_loop T cfg m a kw (i # is) l st) = st3"
          using att Inl False w by (simp add: retry_loop_step del: retry_loop.simps(2))
        then show ?thesis using b1 b3 by simp
      next
        case None
        then have "retry_loop T cfg m a kw (i # is) l st = retry_loop T cfg m a kw is (Some e) st3"
          using att Inl False w by (simp add: retry_loop_step del: retry_loop.simps(2))
        then show ?thesis using Cons.IH [of "Some e" st3] b1 b3 by simp
      qed
    qed
  qed
qed

lemma retry_loop_trace_grows:
  "\<exists>evs. trace (snd (retry_loop T cfg m a kw is l st)) = trace st @ evs"
proof (induction "is" arbitrary: l st)
  case Nil
  then show ?case by simp
next
  case (Cons i "is")
  obtain ra st1 where att: "attempt T m a kw st = (ra, st1)" by (cases "attempt T m a kw st")
  have g1: "\<exists>evs. trace st1 = trace st @ evs"
    using att by (auto simp: attempt_def split: option.splits if_splits prod.splits)
  show ?case
  proof (cases ra)
    case (Inr v)
    then show ?thesis using att g1 by simp
  next
    case (Inl e)
    obtain rs st3 where w: "wait_before_retry T cfg i st1 = (rs, st3)"
      by (cases "wait_before_retry T cfg i st1")
    have g3: "\<exists>evs. trace st3 = trace st @ evs"
      using g1 wait_cases [OF w] by auto
    show ?thesis
    proof (cases "terminal e")
      case True
      then have "snd (retry_loop T cfg m a kw (i # is) l st) = st1"
        using att Inl by (simp add: retry_loop_step del: retry_loop.simps(2))
      then show ?thesis using g1 by simp
    next
      case False
      show ?thesis
      proof (cases rs)
        case (Some e2)
        then have "snd (retry_loop T cfg m a kw (i # is) l st) = st3"
          using att Inl False w by (simp add: retry_loop_step del: retry_loop.simps(2))
        then show ?thesis using g3 by simp
      next
        case None
        then have "retry_loop T cfg m a kw (i # is) l st = retry_loop T cfg m a kw is (Some e) st3"
          using att Inl False w by (simp add: retry_loop_step del: retry_loop.simps(2))
        moreover obtain evs' where
          "trace (snd (retry_loop T cfg m a kw is (Some e) st3)) = trace st3 @ evs'"
          using Cons.IH [of "Some e" st3] by blast
        ultimately show ?thesis using g3 by auto
      qed
    qed
  qed
qed

lemma failures_simps [simp]:
  "failures [] = []"
  "failures (ev # evs) = (case failure_of ev of None \<Rightarrow> failures evs | Some e \<Rightarrow> e # failures evs)"
  "failures (xs @ ys) = failures xs @ failures ys"
  by (simp_all add: failures_def List.map_filter_def split: option.splits)

lemma retry_loop_all_failed:
  assumes "client st = Some h"
    and "max_retries (server cfg) = 0 \<or> time_sleep T (retry_delay (server cfg)) = None"
    and "retry_loop T cfg m a kw is l st = (r, st')"
    and "trace st' = trace st @ evs"
    and "list_all attempt_retried evs"
  shows "r = Inl (exhausted cfg m (if failures evs = [] then l else Some (last (failures evs)))) \<and>
         length (failures evs) = length is"
  using assms(1,3,4,5)
proof (induction "is" arbitrary: l st evs)
  case Nil
  then show ?case by auto
next
  case (Cons i "is")
  obtain ra st1 where att: "attempt T m a kw st = (ra, st1)" by (cases "attempt T m a kw st")
  note ac = attempt_cases [OF Cons.prems(1) att]
  let ?st3 = "if i < max_retries (server cfg)
              then st1\<lparr>trace := trace st1 @ [Slept (retry_delay (server cfg))]\<rparr> else st1"
  have w: "wait_before_retry T cfg i st1 = (None, ?st3)"
    by (rule wait_accepted [OF assms(2)])
  show ?case
  proof (cases ra)
    case (Inr v)
    then have "st' = st1" using att Cons.prems(2) by simp
    then have "evs = [Invoked m (Inr v)]" using ac Inr Cons.prems(3) by auto
    then show ?thesis using Cons.prems(4) by simp
  next
    case (Inl e)
    obtain ev where ev: "trace st1 = trace st @ [ev]" "failure_of ev = Some e"
        "ev = Invoked m (Inl e) \<or> \<not> terminal e"
      using ac Inl by (auto simp: terminal_def)
    show ?thesis
    proof (cases "terminal e")
      case True
      then have "st' = st1"
        using att Inl Cons.prems(2) by (simp add: retry_loop_step del: retry_loop.simps(2))
      then have "evs = [ev]" using ev Cons.prems(3) by auto
      then show ?thesis using Cons.prems(4) ev True by auto
    next
      case False
      then have rec: "retry_loop T cfg m a kw is (Some e) ?st3 = (r, st')"
        using att Inl Cons.prems(2) w by (simp add: retry_loop_step del: retry_loop.simps(2))
      obtain sl where sl: "trace ?st3 = trace st @ [ev] @ sl" "failures sl = []"
          "list_all attempt_retried sl"
        using ev by (cases "i < max_retries (server cfg)") auto
      obtain evs' where evs': "trace st' = trace ?st3 @ evs'"
        using retry_loop_trace_grows [of T cfg m a kw "is" "Some e" ?st3] rec by auto
      have evs_eq: "evs = [ev] @ sl @ evs'"
        using evs' sl Cons.prems(3) by simp
      have cl: "client ?st3 = Some h" using ac Cons.prems(1) by simp
      have "list_all attempt_retried evs'" using Cons.prems(4) evs_eq by simp
      from Cons.IH [OF cl rec evs' this]
      show ?thesis using evs_eq ev sl by auto
    qed
  qed
qed

lemma get_me_invocations:
  "invocations (trace (snd (get_me T h st))) = invocations (trace st)"
  by (auto simp: get_me_def invocations_def split: prod.splits)

lemma get_me_client: "client (snd (get_me T h st)) = client st"
  by (auto simp: get_me_def split: prod.splits)

lemma create_client_invocations:
  "invocations (trace (snd (create_client T cfg st))) = invocations (trace st)"
  by (auto simp: create_client_def invocations_def split: prod.splits sum.splits)

lemma connect_invocations:
  "invocations (trace (snd (connect T cfg st))) = invocations (trace st)"
proof (cases "connected st \<and> client st \<noteq> None")
  case True
  then show ?thesis by (simp add: connect_def)
next
  case False
  obtain rc st1 where cc: "create_client T cfg st = (rc, st1)" by (cases "create_client T cfg st")
  have i1: "invocations (trace st1) = invocations (trace st)"
    using create_client_invocations [of T cfg st] cc by simp
  show ?thesis
  proof (cases rc)
    case (Inl e)
    then show ?thesis using False cc i1 by (auto simp: connect_def)
  next
    case (Inr h)
    obtain rg st2 where gm: "get_me T h (st1\<lparr>client := Some h\<rparr>) = (rg, st2)"
      by (cases "get_me T h (st1\<lparr>client := Some h\<rparr>)")
    have i2: "invocations (trace st2) = invocations (trace st)"
      using get_me_invocations [of T h "st1\<lparr>client := Some h\<rparr>"] gm i1 by simp
    show ?thesis
      using False cc Inr gm i2
      by (auto simp: connect_def split: sum.splits)
  qed
qed

lemma connect_ok_client:
  assumes "connect T cfg st = (Inr u, st1)"
  shows "client st1 \<noteq> None \<and> connected st1"
proof (cases "connected st \<and> client st \<noteq> None")
  case True
  then show ?thesis using assms by (auto simp: connect_def)
next
  case False
  obtain rc st0 where cc: "create_client T cfg st = (rc, st0)" by (cases "create_client T cfg st")
  show ?thesis
  proof (cases rc)
    case (Inl e)
    then show ?thesis using False cc assms by (auto simp: connect_def)
  next
    case (Inr h)
    obtain rg st2 where gm: "get_me T h (st0\<lparr>client := Some h\<rparr>) = (rg, st2)"
      by (cases "get_me T h (st0\<lparr>client := Some h\<rparr>)")
    have "client st2 = Some h"
      using get_me_client [of T h "st0\<lparr>client := Some h\<rparr>"] gm by simp
    then show ?thesis
      using False cc Inr gm assms
      by (auto simp: connect_def split: sum.splits if_splits)
  qed
qed

lemma ensure_connected_client:
  "ensure_connected T cfg st = (Inr u, st1) \<Longrightarrow> client st1 \<noteq> None \<and> connected st1"
  by (auto simp: ensure_connected_def is_connected_def dest: connect_ok_client split: if_splits)

lemma ensure_connected_invocations:
  "invocations (trace (snd (ensure_connected T cfg st))) = invocations (trace st)"
  by (simp add: ensure_connected_def connect_invocations)

lemma call_api_state:
  "snd (call_api T cfg m a kw st) = snd (execute_with_retry T cfg m a kw st)"
  by (auto simp: call_api_def split: prod.splits sum.splits)

lemma call_api_reraises:
  "execute_with_retry T cfg m a kw st = (Inl e, st') \<Longrightarrow> is_KanboardClientError e \<Longrightarrow>
     call_api T cfg m a kw st = (Inl e, st')"
  by (simp add: call_api_def)

lemma missing_method_loop:
  assumes "client st = Some h" and "\<not> exposes T h m" and "k \<le> max_retries (server cfg)"
    and "max_retries (server cfg) = 0 \<or> time_sleep T (retry_delay (server cfg)) = None"
  shows "retry_loop T cfg m a kw [k ..< max_retries (server cfg) + 1] l st =
           (Inl (exhausted cfg m (Some (AttributeError (no_attribute ''Client'' m)))),
            st\<lparr>trace := trace st @
                  concat (replicate (max_retries (server cfg) - k)
                            [LookupFailed m, Slept (retry_delay (server cfg))]) @
                  [LookupFailed m]\<rparr>)"
  using assms(1,2,3)
proof (induction "max_retries (server cfg) - k" arbitrary: k l st)
  case 0
  then have k: "k = max_retries (server cfg)" by simp
  have idx: "[k ..< max_retries (server cfg) + 1] = [k]" using k by simp
  have att: "attempt T m a kw st =
      (Inl (AttributeError (no_attribute ''Client'' m)), st\<lparr>trace := trace st @ [LookupFailed m]\<rparr>)"
    using 0 by (simp add: attempt_def)
  show ?case
    unfolding idx using att k
    by (simp add: retry_loop_step terminal_def wait_accepted [OF assms(4)]
        del: retry_loop.simps(2))
next
  case (Suc d)
  then have k: "k < max_retries (server cfg)" by simp
  have idx: "[k ..< max_retries (server cfg) + 1] = k # [Suc k ..< max_retries (server cfg) + 1]"
    using k by (simp add: upt_rec)
  let ?st1 = "st\<lparr>trace := trace st @ [LookupFailed m]\<rparr>"
  let ?st3 = "?st1\<lparr>trace := trace ?st1 @ [Slept (retry_delay (server cfg))]\<rparr>"
  have att: "attempt T m a kw st = (Inl (AttributeError (no_attribute ''Client'' m)), ?st1)"
    using Suc.prems by (simp add: attempt_def)
  have w: "wait_before_retry T cfg k ?st1 = (None, ?st3)"
    using k by (simp add: wait_accepted [OF assms(4)])
  have d: "d = max_retries (server cfg) - Suc k" using Suc.hyps(2) by simp
  have cl: "client ?st3 = Some h" using Suc.prems by simp
  have k': "Suc k \<le> max_retries (server cfg)" using k by simp
  have rec: "retry_loop T cfg m a kw [Suc k ..< max_retries (server cfg) + 1]
               (Some (AttributeError (no_attribute ''Client'' m))) ?st3 =
             (Inl (exhausted cfg m (Some (AttributeError (no_attribute ''Client'' m)))),
              ?st3\<lparr>trace := trace ?st3 @
                  concat (replicate (max_retries (server cfg) - Suc k)
                            [LookupFailed m, Slept (retry_delay (server cfg))]) @
                  [LookupFailed m]\<rparr>)"
    by (rule Suc.hyps(1) [OF d cl Suc.prems(2) k'])
  have rep: "max_retries (server cfg) - k = Suc (max_retries (server cfg) - Suc k)"
    using k by simp
  show ?case
    unfolding idx
    using att w rec
    by (simp add: retry_loop_step terminal_def rep del: retry_loop.simps(2))
qed

lemmas run_defs = call_api_def execute_with_retry_def ensure_connected_def is_connected_def
  attempt_def scripted_def on_failure_def auth_failure_def lower_def lower_char_def
  startswith_def example_config_def sleep_def wait_before_retry_def connect_def
  create_client_def get_me_def connect_failed_def exhausted_def format_int_def
  digit_chars.simps no_attribute_def quoted_def init_def invocations_def terminal_def
  test_connection_def disconnect_def

section \<open>The retry bound\<close>

text \<open>
  C3. Whatever the method name, the arguments, the transport and the state the call
  starts in, one \<open>call_api\<close> makes at most \<open>max_retries + 1\<close> invocations of the
  transport method: the trace gains at most that many \<open>Invoked\<close> events. (The identity
  check of a first \<open>connect\<close> is not an attempt of the loop and is traced apart.)
\<close>

theorem call_api_invocation_bound:
  "invocations (trace (snd (call_api T cfg m a kw st)))
     \<le> invocations (trace st) + (max_retries (server cfg) + 1)"
proof -
  obtain rc st1 where ec: "ensure_connected T cfg st = (rc, st1)"
    by (cases "ensure_connected T cfg st")
  have i1: "invocations (trace st1) = invocations (trace st)"
    using ensure_connected_invocations [of T cfg st] ec by simp
  show ?thesis
  proof (cases rc)
    case (Inl e)
    then show ?thesis using ec i1 by (simp add: call_api_state execute_with_retry_def)
  next
    case (Inr u)
    have "invocations (trace (snd (retry_loop T cfg m a kw [0 ..< max_retries (server cfg) + 1] None st1)))
        \<le> invocations (trace st1) + length [0 ..< max_retries (server cfg) + 1]"
      by (rule retry_loop_invocations)
    then show ?thesis using ec Inr i1 by (simp add: call_api_state execute_with_retry_def)
  qed
qed

theorem call_api_invocation_bound_witness:
  "invocations (trace (snd (call_api (scripted [''get_task'']) (example_config 2 (Finite 0)) ''get_task'' [] []
      \<lparr>client = Some 0, connected = True,
       world = ([], [Inl (ClientError ''a'' None), Inl (ClientError ''b'' None),
                     Inl (ClientError ''c'' None), Inr PyNone]),
       trace = []\<rparr>))) = 3"
  using call_api_invocation_bound [of "scripted [''get_task'']" "example_config 2 (Finite 0)" "''get_task''" "[]" "[]"
      "\<lparr>client = Some 0, connected = True,
       world = ([], [Inl (ClientError ''a'' None), Inl (ClientError ''b'' None),
                     Inl (ClientError ''c'' None), Inr PyNone]),
       trace = []\<rparr>"]
  by (simp add: run_defs upt_rec)

section \<open>Failures that end the call at once\<close>

text \<open>
  C2. When the session is up and the first invocation of the method fails with a
  \<open>kanboard.ClientError\<close> whose message contains "authentication" or "unauthorized" in
  any letter case, or whose code lies in 400..499, \<open>call_api\<close> raises at once: a
  \<open>KanboardAuthenticationError\<close> in the first case, a \<open>KanboardAPIError\<close> otherwise.
  The trace gains that one invocation and nothing else: no second attempt, no sleep.
\<close>

theorem terminal_failure_raised_at_once:
  assumes "ensure_connected T cfg st = (Inr (), st1)"
    and "client st1 = Some h"
    and "exposes T h m"
    and "invoke T h m a kw (world st1) = (Inl (ClientError msg code), w)"
    and "auth_failure (ClientError msg code) \<or> client_4xx (ClientError msg code)"
  shows "call_api T cfg m a kw st =
           (Inl (if auth_failure (ClientError msg code)
                 then KanboardAuthenticationError (''Authentication failed: '' @ msg)
                 else KanboardAPIError (''API error: '' @ msg)),
            st1\<lparr>world := w, trace := trace st1 @ [Invoked m (Inl (ClientError msg code))]\<rparr>)"
proof -
  have att: "attempt T m a kw st1 =
      (Inl (ClientError msg code),
       st1\<lparr>world := w, trace := trace st1 @ [Invoked m (Inl (ClientError msg code))]\<rparr>)"
    using assms(2-4) by (simp add: attempt_def)
  have tm: "terminal (ClientError msg code)"
    using assms(5) by (simp add: terminal_def)
  have idx: "[0 ..< max_retries (server cfg) + 1] = 0 # [1 ..< max_retries (server cfg) + 1]"
    by (simp add: upt_rec)
  show ?thesis
    unfolding call_api_def execute_with_retry_def assms(1) idx
    using att tm by (simp add: retry_loop_step del: retry_loop.simps(2))
qed

theorem terminal_failure_raised_at_once_witness:
  "call_api (scripted [''get_task'']) (example_config 3 (Finite 1)) ''get_task'' [PyInt 1] []
     \<lparr>client = Some 0, connected = True,
      world = ([], [Inl (ClientError ''HTTP Error 401: Unauthorized'' None), Inr PyNone]),
      trace = []\<rparr> =
   (Inl (KanboardAuthenticationError ''Authentication failed: HTTP Error 401: Unauthorized''),
    \<lparr>client = Some 0, connected = True, world = ([], [Inr PyNone]),
      trace = [Invoked ''get_task'' (Inl (ClientError ''HTTP Error 401: Unauthorized'' None))]\<rparr>)"
  using terminal_failure_raised_at_once
    [of "scripted [''get_task'']" "example_config 3 (Finite 1)"
        "\<lparr>client = Some 0, connected = True,
          world = ([], [Inl (ClientError ''HTTP Error 401: Unauthorized'' None), Inr PyNone]),
          trace = []\<rparr>"
        "\<lparr>client = Some 0, connected = True,
          world = ([], [Inl (ClientError ''HTTP Error 401: Unauthorized'' None), Inr PyNone]),
          trace = []\<rparr>"
        0 "''get_task''" "[PyInt 1]" "[]" "''HTTP Error 401: Unauthorized''" None "([], [Inr PyNone])"]
  by (simp add: ensure_connected_def is_connected_def scripted_def auth_failure_def lower_def
      lower_char_def startswith_def)

section \<open>Running out of attempts\<close>

text \<open>
  C4 (as amended). When the session is up, \<open>time.sleep\<close> accepts the configured delay (or
  \<open>max_retries\<close> is 0, so that no delay is taken), and every attempt of a \<open>call_api\<close>
  fails with a retryable failure (no event of the call is a successful invocation or a
  terminal failure), the call makes \<open>max_retries + 1\<close> attempts and raises an error whose
  message names the method, gives the attempt count \<open>max_retries + 1\<close>, and ends with the
  text of the failure of the last attempt.
\<close>

theorem exhausted_retries_terminal_error:
  assumes "ensure_connected T cfg st = (Inr (), st1)"
    and "max_retries (server cfg) = 0 \<or> time_sleep T (retry_delay (server cfg)) = None"
    and "call_api T cfg m a kw st = (r, st')"
    and "trace st' = trace st1 @ evs"
    and "list_all attempt_retried evs"
  shows "length (failures evs) = max_retries (server cfg) + 1 \<and>
         r = Inl (if is_ClientError (last (failures evs))
                  then KanboardAPIError
                         (''API call '' @ m @ '' failed after '' @
                          format_int (max_retries (server cfg) + 1) @ '' attempts: '' @
                          str (last (failures evs)))
                  else KanboardClientError
                         (''Unexpected error in '' @ m @ '' after '' @
                          format_int (max_retries (server cfg) + 1) @ '' attempts: '' @
                          str (last (failures evs))))"
proof -
  obtain h where cl: "client st1 = Some h"
    using ensure_connected_client [OF assms(1)] by auto
  obtain r0 where run: "retry_loop T cfg m a kw [0 ..< max_retries (server cfg) + 1] None st1 = (r0, st')"
    using assms(1,3) call_api_state [of T cfg m a kw st]
    by (cases "retry_loop T cfg m a kw [0 ..< max_retries (server cfg) + 1] None st1")
       (simp add: execute_with_retry_def)
  from retry_loop_all_failed [OF cl assms(2) run assms(4,5)]
  have r0: "r0 = Inl (exhausted cfg m
                (if failures evs = [] then None else Some (last (failures evs))))"
    and n: "length (failures evs) = max_retries (server cfg) + 1"
    by simp_all
  from n have ne: "failures evs \<noteq> []" by auto
  let ?e = "if is_ClientError (last (failures evs))
            then KanboardAPIError
                   (''API call '' @ m @ '' failed after '' @
                    format_int (max_retries (server cfg) + 1) @ '' attempts: '' @
                    str (last (failures evs)))
            else KanboardClientError
                   (''Unexpected error in '' @ m @ '' after '' @
                    format_int (max_retries (server cfg) + 1) @ '' attempts: '' @
                    str (last (failures evs)))"
  have r0': "r0 = Inl ?e" using r0 ne by (simp add: exhausted_def)
  have "execute_with_retry T cfg m a kw st = (Inl ?e, st')"
    using assms(1) run r0' by (simp add: execute_with_retry_def)
  moreover have "is_KanboardClientError ?e" by simp
  ultimately have "call_api T cfg m a kw st = (Inl ?e, st')"
    by (rule call_api_reraises)
  then have "r = Inl ?e" using assms(3) by simp
  then show ?thesis using n by simp
qed

theorem exhausted_retries_terminal_error_witness:
  "fst (call_api (scripted [''get_task'']) (example_config 1 (Finite 0)) ''get_task'' [PyInt 1] []
         \<lparr>client = Some 0, connected = True,
          world = ([], [Inl (ClientError ''timed out'' None), Inl (OtherException ''reset'')]),
          trace = []\<rparr>) =
   Inl (KanboardClientError ''Unexpected error in get_task after 2 attempts: reset'')"
  using exhausted_retries_terminal_error
    [of "scripted [''get_task'']" "example_config 1 (Finite 0)"
        "\<lparr>client = Some 0, connected = True,
          world = ([], [Inl (ClientError ''timed out'' None), Inl (OtherException ''reset'')]),
          trace = []\<rparr>"
        "\<lparr>client = Some 0, connected = True,
          world = ([], [Inl (ClientError ''timed out'' None), Inl (OtherException ''reset'')]),
          trace = []\<rparr>"
        "''get_task''" "[PyInt 1]" "[]"
        "Inl (KanboardClientError ''Unexpected error in get_task after 2 attempts: reset'')"
        "\<lparr>client = Some 0, connected = True, world = ([], []),
          trace = [Invoked ''get_task'' (Inl (ClientError ''timed out'' None)), Slept (Finite 0),
                   Invoked ''get_task'' (Inl (OtherException ''reset''))]\<rparr>"
        "[Invoked ''get_task'' (Inl (ClientError ''timed out'' None)), Slept (Finite 0),
          Invoked ''get_task'' (Inl (OtherException ''reset''))]"]
  by (simp add: run_defs upt_rec)

text \<open>
  The claim as stated, for every accepted configuration, fails. \<open>validate_retry_delay\<close>
  accepts a delay of \<open>1e10\<close> seconds, \<open>time.sleep\<close> raises \<open>OverflowError\<close> for it, and
  the statement stands after the \<open>try\<close>: with \<open>max_retries = 1\<close> the one attempt made
  fails with a retryable failure, and the call ends in the \<open>Unexpected error\<close> of
  \<open>call_api\<close>, which names neither the method nor an attempt count.
\<close>

theorem exhausted_retries_sleep_counterexample:
  "validate_retry_delay (Finite 10000000000) = Inr (Finite 10000000000) \<and>
   call_api (scripted [''get_task'']) (example_config 1 (Finite 10000000000)) ''get_task'' [PyInt 1] []
     \<lparr>client = Some 0, connected = True,
      world = ([], [Inl (ClientError ''timed out'' None), Inl (ClientError ''timed out'' None)]),
      trace = []\<rparr> =
   (Inl (KanboardClientError
           ''Unexpected error: timestamp too large to convert to C _PyTime_t''),
    \<lparr>client = Some 0, connected = True,
      world = ([], [Inl (ClientError ''timed out'' None)]),
      trace = [Invoked ''get_task'' (Inl (ClientError ''timed out'' None))]\<rparr>) \<and>
   list_all attempt_retried [Invoked ''get_task'' (Inl (ClientError ''timed out'' None))] \<and>
   \<not> str_contains ''get_task''
       ''Unexpected error: timestamp too large to convert to C _PyTime_t''"
  by (simp add: run_defs upt_rec validate_retry_delay_def)

section \<open>The connection test\<close>

text \<open>
  C5. \<open>test_connection\<close> never raises, whatever the transport does and whatever state
  the client is in: when \<open>call_api\<close> returns a payload the result has \<open>connected\<close> true
  and that payload under \<open>user\<close>; when \<open>call_api\<close> raises, for any reason, the result has
  \<open>connected\<close> false and the message of the error under \<open>error\<close>.
\<close>

theorem test_connection_never_raises:
  "\<exists>d. fst (test_connection T cfg st) = Inr d \<and>
     (case fst (call_api T cfg ''get_me'' [] [] st) of
        Inr v \<Rightarrow> map_of d ''connected'' = Some (PyBool True) \<and> map_of d ''user'' = Some v
      | Inl e \<Rightarrow> map_of d ''connected'' = Some (PyBool False) \<and>
                 map_of d ''error'' = Some (PyStr (str e)))"
  by (auto simp: test_connection_def split: prod.splits sum.splits)

theorem test_connection_never_raises_witness:
  "fst (test_connection (scripted [''get_me'']) (example_config 0 (Finite 0)) (init ([], []))) =
     Inr [(''connected'', PyBool False),
          (''error'', PyStr ''Connection failed: Failed to create Kanboard client: no transport''),
          (''server_url'', PyStr ''http://h/jsonrpc.php''),
          (''username'', PyStr ''jsonrpc'')]"
  using test_connection_never_raises [of "scripted [''get_me'']" "example_config 0 (Finite 0)" "init ([], [])"]
  by (simp add: run_defs)

section \<open>Disconnecting\<close>

text \<open>
  C6. From every state \<open>disconnect\<close> returns normally with the handle cleared and the flag
  reset, and leaves the outside world alone. On a client that is already disconnected it
  changes neither field, and a second \<open>disconnect\<close> leaves the fields as the first one
  left them. (Each call writes its log line, which is all the trace gains.)
\<close>

theorem disconnect_clears_idempotent:
  "fst (disconnect st) = Inr () \<and>
   client (snd (disconnect st)) = None \<and>
   connected (snd (disconnect st)) = False \<and>
   \<not> is_connected (snd (disconnect st)) \<and>
   world (snd (disconnect st)) = world st \<and>
   (client st = None \<and> \<not> connected st \<longrightarrow>
      client (snd (disconnect st)) = client st \<and>
      connected (snd (disconnect st)) = connected st) \<and>
   fst (disconnect (snd (disconnect st))) = Inr () \<and>
   client (snd (disconnect (snd (disconnect st)))) = client (snd (disconnect st)) \<and>
   connected (snd (disconnect (snd (disconnect st)))) = connected (snd (disconnect st)) \<and>
   world (snd (disconnect (snd (disconnect st)))) = world (snd (disconnect st))"
  by (simp add: disconnect_def is_connected_def)

theorem disconnect_clears_idempotent_witness:
  "client (snd (disconnect (init (0::nat)))) = client (init (0::nat)) \<and>
   connected (snd (disconnect (init (0::nat)))) = connected (init (0::nat)) \<and>
   client (snd (disconnect \<lparr>client = Some 4, connected = True, world = (0::nat), trace = []\<rparr>)) = None"
  using disconnect_clears_idempotent [of "init (0::nat)"]
    disconnect_clears_idempotent [of "\<lparr>client = Some 4, connected = True, world = (0::nat), trace = []\<rparr>"]
  by (simp add: init_def)

section \<open>A missing method\<close>

text \<open>
  C10 (as amended). On a connected client, when \<open>time.sleep\<close> accepts the configured
  delay (or \<open>max_retries\<close> is 0, so that no delay is taken), a method name the handle does
  not expose does not fail fast. Each of the \<open>max_retries + 1\<close> attempts fails at the
  lookup, with a sleep between consecutive attempts and none after the last, no method is
  ever invoked, and the call ends with a \<open>KanboardClientError\<close> that names the method and
  the attempt count.
\<close>

theorem missing_method_is_retried:
  assumes "is_connected st" and "client st = Some h" and "\<not> exposes T h m"
    and "max_retries (server cfg) = 0 \<or> time_sleep T (retry_delay (server cfg)) = None"
  shows "call_api T cfg m a kw st =
           (Inl (KanboardClientError
                   (''Unexpected error in '' @ m @ '' after '' @
                    format_int (max_retries (server cfg) + 1) @ '' attempts: '' @
                    no_attribute ''Client'' m)),
            st\<lparr>trace := trace st @
                  concat (replicate (max_retries (server cfg))
                            [LookupFailed m, Slept (retry_delay (server cfg))]) @
                  [LookupFailed m]\<rparr>)"
  using missing_method_loop [OF assms(2,3) _ assms(4), of 0 a kw None] assms(1)
  by (simp add: call_api_def execute_with_retry_def ensure_connected_def exhausted_def)

theorem missing_method_is_retried_witness:
  "call_api (scripted []) (example_config 2 (Finite 0)) ''get_task'' [PyInt 1] []
     \<lparr>client = Some 0, connected = True, world = ([], []), trace = []\<rparr> =
   (Inl (KanboardClientError
          (''Unexpected error in get_task after 3 attempts: '' @ no_attribute ''Client'' ''get_task'')),
    \<lparr>client = Some 0, connected = True, world = ([], []),
      trace = [LookupFailed ''get_task'', Slept (Finite 0), LookupFailed ''get_task'',
               Slept (Finite 0), LookupFailed ''get_task'']\<rparr>)"
  using missing_method_is_retried
    [of "\<lparr>client = Some 0, connected = True, world = ([], []), trace = []\<rparr>" 0
        "scripted []" "''get_task''" "example_config 2 (Finite 0)" "[PyInt 1]" "[]"]
  by (simp add: is_connected_def scripted_def example_config_def format_int_def digit_chars.simps
      numeral_2_eq_2)

text \<open>
  The claim as stated, for every accepted configuration, fails. With the accepted delay
  of \<open>1e10\<close> seconds and \<open>max_retries = 2\<close>, the first lookup fails, \<open>time.sleep\<close>
  raises \<open>OverflowError\<close> after the \<open>try\<close>, and the call ends after that one attempt
  in the \<open>Unexpected error\<close> of \<open>call_api\<close>, which names neither the method nor an
  attempt count.
\<close>

theorem missing_method_sleep_counterexample:
  "validate_retry_delay (Finite 10000000000) = Inr (Finite 10000000000) \<and>
   call_api (scripted []) (example_config 2 (Finite 10000000000)) ''get_task'' [PyInt 1] []
     \<lparr>client = Some 0, connected = True, world = ([], []), trace = []\<rparr> =
   (Inl (KanboardClientError
           ''Unexpected error: timestamp too large to convert to C _PyTime_t''),
    \<lparr>client = Some 0, connected = True, world = ([], []),
      trace = [LookupFailed ''get_task'']\<rparr>) \<and>
   \<not> str_contains ''get_task''
       ''Unexpected error: timestamp too large to convert to C _PyTime_t''"
  by (simp add: run_defs upt_rec validate_retry_delay_def)

section \<open>Reconnecting after a connection failure\<close>

text \<open>
  C1. With \<open>max_retries = 2\<close> and \<open>retry_delay = 0\<close>, on a connected client whose
  transport fails twice with a connection failure (a \<open>kanboard.ClientError\<close> that is
  neither an authentication failure nor a 4xx) and then answers, \<open>call_api\<close> returns the
  answer after three invocations, as C1 says, but it never reconnects: there is no
  disconnect and no construction in the trace, the handle is the one the call started
  with, and the two transports on offer are left unused. The first \<open>except\<close> clause takes
  every \<open>kanboard.ClientError\<close>, so the clause that reconnects is never tried.
\<close>

theorem connection_failures_are_not_followed_by_reconnect:
  "call_api (scripted [''get_task'']) (example_config 2 (Finite 0)) ''get_task'' [PyInt 1] []
     \<lparr>client = Some 0, connected = True,
      world = ([Inr 1, Inr 2],
               [Inl (ClientError ''Connection reset by peer'' None),
                Inl (ClientError ''Connection reset by peer'' None),
                Inr (PyStr ''ok'')]),
      trace = []\<rparr> =
   (Inr (PyStr ''ok''),
    \<lparr>client = Some 0, connected = True, world = ([Inr 1, Inr 2], []),
      trace = [Invoked ''get_task'' (Inl (ClientError ''Connection reset by peer'' None)),
               Slept (Finite 0),
               Invoked ''get_task'' (Inl (ClientError ''Connection reset by peer'' None)),
               Slept (Finite 0),
               Invoked ''get_task'' (Inr (PyStr ''ok''))]\<rparr>)"
  by (simp add: run_defs upt_rec)

section \<open>A connect that raises\<close>

text \<open>
  C9. When the identity check answers with a value that is not \<open>None\<close> and has no \<open>get\<close>
  method (here JSON \<open>false\<close>), \<open>connect\<close> sets the flag, then fails while building its
  log line, and raises \<open>KanboardConnectionError\<close>: the call raises and \<open>is_connected\<close> is
  true afterwards.
\<close>

theorem connect_raises_and_stays_connected:
  "connect (scripted [''get_me'']) (example_config 3 (Finite 1)) (init ([Inr 7], [Inr (PyBool False)])) =
     (Inl (KanboardConnectionError (''Connection failed: '' @ no_attribute ''bool'' ''get'')),
      \<lparr>client = Some 7, connected = True, world = ([], []),
        trace = [Constructed, IdentityCheck]\<rparr>) \<and>
   is_connected
     (snd (connect (scripted [''get_me'']) (example_config 3 (Finite 1))
             (init ([Inr 7], [Inr (PyBool False)]))))"
  by (simp add: run_defs)

end
